theory Spec2Isabelle
  imports Complex_Main
begin

section \<open>Strings\<close>

text \<open>
  A string of the program is a sequence of UTF-16 code units. The model takes
  \<^typ>\<open>string\<close> and reads a \<^typ>\<open>char\<close> as the code unit with the same number, so it
  covers the strings whose code units are all below 256.

  \<^verbatim>\<open>String.prototype.trim\<close> and the regular expression class \<^verbatim>\<open>\s\<close> use the same set of
  white space and line terminators; below 256 these are the code units 9 to 13, 32 and 160.
\<close>

definition is_ws :: "char \<Rightarrow> bool" where
  "is_ws c = (let n = (of_char c :: nat) in (9 \<le> n \<and> n \<le> 13) \<or> n = 32 \<or> n = 160)"

definition trimStart :: "string \<Rightarrow> string" where
  "trimStart s = dropWhile is_ws s"

definition trimEnd :: "string \<Rightarrow> string" where
  "trimEnd s = rev (dropWhile is_ws (rev s))"

definition trim :: "string \<Rightarrow> string" where
  "trim s = trimEnd (trimStart s)"

text \<open>
  \<^verbatim>\<open>s.split(sep)\<close> for a separator of one code unit: the pieces between the
  occurrences of the separator, in order. The result is never empty: a string without
  the separator (the empty string too) gives the one-element array holding it.
\<close>

fun split_on :: "char \<Rightarrow> string \<Rightarrow> string list" where
  "split_on sep [] = [[]]"
| "split_on sep (c # cs) =
     (if c = sep then [] # split_on sep cs
      else (case split_on sep cs of
              [] \<Rightarrow> [[c]]
            | piece # pieces \<Rightarrow> (c # piece) # pieces))"

text \<open>\<^verbatim>\<open>xs.join(sep)\<close>: the empty string for the empty array.\<close>

fun join :: "string \<Rightarrow> string list \<Rightarrow> string" where
  "join sep [] = []"
| "join sep [x] = x"
| "join sep (x # y # ys) = x @ sep @ join sep (y # ys)"

text \<open>
  \<^verbatim>\<open>toLowerCase\<close> on one code unit below 256: the letters A to Z and the capital letters
  of Latin-1 (192 to 222 without the multiplication sign 215) move up by 32.
\<close>

definition to_lower :: "char \<Rightarrow> char" where
  "to_lower c =
     (let n = (of_char c :: nat)
      in if (65 \<le> n \<and> n \<le> 90) \<or> (192 \<le> n \<and> n \<le> 222 \<and> n \<noteq> 215)
         then char_of (n + 32) else c)"

definition toLowerCase :: "string \<Rightarrow> string" where
  "toLowerCase s = map to_lower s"

text \<open>
  \<^verbatim>\<open>s.replace(/\s+/g, '-')\<close>: every maximal run of white space becomes one hyphen.
\<close>

function replace_ws_runs :: "string \<Rightarrow> string" where
  "replace_ws_runs [] = []"
| "replace_ws_runs (c # cs) =
     (if is_ws c then CHR ''-'' # replace_ws_runs (dropWhile is_ws cs)
      else c # replace_ws_runs cs)"
  by pat_completeness auto
termination
  by (relation "measure length") (auto simp: length_dropWhile_le less_Suc_eq_le)

section \<open>Numbers\<close>

text \<open>
  The \<^verbatim>\<open>number\<close> type of the program is the IEEE 754 double. A finite double other
  than the negative zero is modelled by its exact value, a rational number.

  The program calls \<^verbatim>\<open>Number(text)\<close> and writes numbers into template literals. Both are
  operations of the language, \<^verbatim>\<open>StringToNumber\<close> and \<^verbatim>\<open>Number::toString\<close>; they are written
  out below so that the calls of the program can be evaluated.
\<close>

datatype number = NaN | PosInfinity | NegInfinity | NegZero | Finite rat

definition isNaN :: "number \<Rightarrow> bool" where
  "isNaN x = (x = NaN)"

definition isFinite :: "number \<Rightarrow> bool" where
  "isFinite x = (case x of Finite q \<Rightarrow> True | NegZero \<Rightarrow> True | _ \<Rightarrow> False)"

subsection \<open>Rounding a real value to a double\<close>

text \<open>Number of binary digits of an integer (0 when it is not positive).\<close>

function bit_length :: "int \<Rightarrow> nat" where
  "bit_length n = (if n \<le> 0 then 0 else Suc (bit_length (n div 2)))"
  by pat_completeness auto
termination
  by (relation "measure nat") auto

declare bit_length.simps [simp del]

text \<open>For \<open>0 < q\<close>: the \<open>e\<close> with \<open>2 ^ e \<le> q < 2 ^ (e + 1)\<close>.\<close>

definition floor_log2 :: "rat \<Rightarrow> int" where
  "floor_log2 q =
     (if 1 \<le> q then int (bit_length \<lfloor>q\<rfloor>) - 1
      else (let m = int (bit_length \<lfloor>1 / q\<rfloor>)
            in if q * 2 ^ nat (m - 1) = 1 then 1 - m else - m))"

definition round_half_even :: "rat \<Rightarrow> int" where
  "round_half_even x =
     (let f = \<lfloor>x\<rfloor>; d = x - of_int f
      in if d < 1 / 2 then f
         else if 1 / 2 < d then f + 1
         else if even f then f else f + 1)"

text \<open>
  Round to nearest, ties to even, with 53 bits of precision, the least exponent
  \<open>-1074\<close> (subnormal numbers) and overflow to infinity from \<open>2 ^ 1024\<close> on. The
  first argument is the sign; the second the magnitude, \<open>0 \<le> q\<close>.
\<close>

definition round_double :: "bool \<Rightarrow> rat \<Rightarrow> number" where
  "round_double neg q =
     (if q \<le> 0 then (if neg then NegZero else Finite 0)
      else
        (let ex = max (floor_log2 q - 52) (- 1074);
             m = round_half_even (q / 2 powi ex);
             r = of_int m * 2 powi ex
         in if 2 ^ 1024 \<le> r then (if neg then NegInfinity else PosInfinity)
            else if r = 0 then (if neg then NegZero else Finite 0)
            else Finite (if neg then - r else r)))"

subsection \<open>Number(string): StringToNumber\<close>

definition is_digit :: "char \<Rightarrow> bool" where
  "is_digit c = (let n = (of_char c :: nat) in 48 \<le> n \<and> n \<le> 57)"

text \<open>The value of a digit in a radix up to 16, \<open>None\<close> when it is no digit of the radix.\<close>

definition radix_digit :: "int \<Rightarrow> char \<Rightarrow> int option" where
  "radix_digit b c =
     (let n = (of_char c :: int);
          v = (if 48 \<le> n \<and> n \<le> 57 then n - 48
               else if 97 \<le> n \<and> n \<le> 102 then n - 87
               else if 65 \<le> n \<and> n \<le> 70 then n - 55
               else 16)
      in if v < b then Some v else None)"

definition digits_value :: "int \<Rightarrow> string \<Rightarrow> int" where
  "digits_value b ds =
     foldl (\<lambda>a c. b * a + (case radix_digit b c of Some v \<Rightarrow> v | None \<Rightarrow> 0)) 0 ds"

text \<open>
  \<^verbatim>\<open>NonDecimalIntegerLiteral\<close>: \<^verbatim>\<open>0b\<close>, \<^verbatim>\<open>0o\<close> or \<^verbatim>\<open>0x\<close> (either case) and at least one digit
  of the radix. No sign is allowed in front.
\<close>

definition non_decimal_literal :: "string \<Rightarrow> int option" where
  "non_decimal_literal s =
     (case s of
        z # p # ds \<Rightarrow>
          (let b = (if p = CHR ''b'' \<or> p = CHR ''B'' then 2
                    else if p = CHR ''o'' \<or> p = CHR ''O'' then 8
                    else if p = CHR ''x'' \<or> p = CHR ''X'' then 16
                    else (0::int))
           in if z = CHR ''0'' \<and> b \<noteq> 0 \<and> ds \<noteq> [] \<and> list_all (\<lambda>d. radix_digit b d \<noteq> None) ds
              then Some (digits_value b ds) else None)
      | _ \<Rightarrow> None)"

text \<open>
  \<^verbatim>\<open>ExponentPart\<close>, optional: nothing (exponent 0), or \<^verbatim>\<open>e\<close>/\<^verbatim>\<open>E\<close>, an optional sign and at
  least one decimal digit. \<open>None\<close> when the text is neither.
\<close>

definition exponent_part :: "string \<Rightarrow> int option" where
  "exponent_part s =
     (case s of
        [] \<Rightarrow> Some 0
      | c # t \<Rightarrow>
          if c = CHR ''e'' \<or> c = CHR ''E'' then
            (let neg = (case t of d # _ \<Rightarrow> d = CHR ''-'' | [] \<Rightarrow> False);
                 ds = (case t of d # u \<Rightarrow> (if d = CHR ''-'' \<or> d = CHR ''+'' then u else t) | [] \<Rightarrow> [])
             in if ds \<noteq> [] \<and> list_all is_digit ds
                then Some (if neg then - digits_value 10 ds else digits_value 10 ds)
                else None)
          else None)"

text \<open>
  The mathematical value of a \<^verbatim>\<open>StrUnsignedDecimalLiteral\<close> other than \<^verbatim>\<open>Infinity\<close>:
  digits, an optional point with digits, an optional exponent; at least one digit
  before or after the point.
\<close>

definition unsigned_decimal_value :: "string \<Rightarrow> rat option" where
  "unsigned_decimal_value s =
     (let ip = takeWhile is_digit s;
          r1 = dropWhile is_digit s;
          fp = (case r1 of c # t \<Rightarrow> (if c = CHR ''.'' then takeWhile is_digit t else []) | [] \<Rightarrow> []);
          r2 = (case r1 of c # t \<Rightarrow> (if c = CHR ''.'' then dropWhile is_digit t else r1) | [] \<Rightarrow> [])
      in if ip = [] \<and> fp = [] then None
         else (case exponent_part r2 of
                 None \<Rightarrow> None
               | Some e \<Rightarrow>
                   Some (of_int (digits_value 10 (ip @ fp)) * 10 powi (e - int (length fp)))))"

definition unsigned_decimal :: "bool \<Rightarrow> string \<Rightarrow> number" where
  "unsigned_decimal neg s =
     (if s = ''Infinity'' then (if neg then NegInfinity else PosInfinity)
      else (case unsigned_decimal_value s of
              None \<Rightarrow> NaN
            | Some q \<Rightarrow> round_double neg q))"

text \<open>
  \<^verbatim>\<open>StringToNumber\<close>: white space around the literal is ignored, the empty literal is
  \<open>+0\<close>, and text that is no \<^verbatim>\<open>StringNumericLiteral\<close> gives \<^verbatim>\<open>NaN\<close>.
\<close>

definition StringToNumber :: "string \<Rightarrow> number" where
  "StringToNumber str =
     (let s = trim str
      in case s of
           [] \<Rightarrow> Finite 0
         | c # t \<Rightarrow>
             (case non_decimal_literal s of
                Some n \<Rightarrow> round_double False (of_int n)
              | None \<Rightarrow>
                  if c = CHR ''-'' then unsigned_decimal True t
                  else if c = CHR ''+'' then unsigned_decimal False t
                  else unsigned_decimal False s))"

text \<open>
  \<^verbatim>\<open>Number(v)\<close> for \<^verbatim>\<open>v\<close> a string or \<^verbatim>\<open>undefined\<close> (\<open>None\<close>): \<^verbatim>\<open>undefined\<close> gives
  \<^verbatim>\<open>NaN\<close>.
\<close>

definition Number :: "string option \<Rightarrow> number" where
  "Number v = (case v of None \<Rightarrow> NaN | Some s \<Rightarrow> StringToNumber s)"

subsection \<open>String(number): Number::toString in radix 10\<close>

definition digit_char :: "int \<Rightarrow> char" where
  "digit_char d = ''0123456789'' ! nat d"

text \<open>The decimal digits of a natural number, most significant first.\<close>

function decimal_digits :: "int \<Rightarrow> string" where
  "decimal_digits n =
     (if n < 10 then [digit_char n] else decimal_digits (n div 10) @ [digit_char (n mod 10)])"
  by pat_completeness auto
termination
  by (relation "measure nat") auto

declare decimal_digits.simps [simp del]

text \<open>For \<open>0 < q\<close>: the \<open>n\<close> with \<open>10 ^ (n - 1) \<le> q < 10 ^ n\<close>.\<close>

definition decimal_exponent :: "rat \<Rightarrow> int" where
  "decimal_exponent q =
     (if 1 \<le> q then int (length (decimal_digits \<lfloor>q\<rfloor>))
      else (let m = int (length (decimal_digits \<lfloor>1 / q\<rfloor>))
            in if q * 10 ^ nat (m - 1) = 1 then 2 - m else 1 - m))"

text \<open>
  The pairs \<open>(s, n)\<close> with \<open>k\<close> digits in \<open>s\<close>, that is \<open>10 ^ (k - 1) \<le> s < 10 ^ k\<close>, for
  which \<open>s * 10 ^ (n - k)\<close> rounds to the double \<open>q\<close>, taken among the multiples of
  \<open>10 ^ (n - k)\<close> next to \<open>q\<close> below and above.
\<close>

definition digit_candidates :: "rat \<Rightarrow> nat \<Rightarrow> (int \<times> int) list" where
  "digit_candidates q k =
     (let n0 = decimal_exponent q;
          x = q / 10 powi (n0 - int k)
      in filter
           (\<lambda>(s, n). 10 ^ (k - 1) \<le> s \<and> s < 10 ^ k \<and>
                      round_double False (of_int s * 10 powi (n - int k)) = Finite q)
           [(\<lfloor>x\<rfloor>, n0), (\<lceil>x\<rceil>, n0), (10 ^ (k - 1), n0 + 1)])"

text \<open>Of two candidates the one nearer to \<open>q\<close>; at equal distance the one with even \<open>s\<close>.\<close>

definition nearer :: "rat \<Rightarrow> nat \<Rightarrow> int \<times> int \<Rightarrow> int \<times> int \<Rightarrow> int \<times> int" where
  "nearer q k a b =
     (let da = \<bar>of_int (fst a) * 10 powi (snd a - int k) - q\<bar>;
          db = \<bar>of_int (fst b) * 10 powi (snd b - int k) - q\<bar>
      in if da < db then a else if db < da then b else if even (fst a) then a else b)"

text \<open>
  The digits \<open>s\<close>, the exponent \<open>n\<close> and the number of digits \<open>k\<close> of a positive double:
  \<open>k\<close> is as small as possible (17 digits always identify a double).
\<close>

definition shortest_digits :: "rat \<Rightarrow> int \<times> int \<times> nat" where
  "shortest_digits q =
     (case List.find (\<lambda>k. digit_candidates q k \<noteq> [])
             [1, 2, 3, 4, 5, 6, 7, 8, 9, 10, 11, 12, 13, 14, 15, 16, 17] of
        Some k \<Rightarrow>
          (case digit_candidates q k of
             c # cs \<Rightarrow> (let b = foldl (nearer q k) c cs in (fst b, snd b, k))
           | [] \<Rightarrow> (0, 0, k))
      | None \<Rightarrow> (\<lfloor>q / 10 powi (decimal_exponent q - 17)\<rfloor>, decimal_exponent q, 17))"

definition positive_to_string :: "rat \<Rightarrow> string" where
  "positive_to_string q =
     (case shortest_digits q of
        (s, n, k) \<Rightarrow>
          (let ds = decimal_digits s
           in if int k \<le> n \<and> n \<le> 21 then ds @ replicate (nat (n - int k)) CHR ''0''
              else if 0 < n \<and> n \<le> 21 then take (nat n) ds @ ''.'' @ drop (nat n) ds
              else if - 6 < n \<and> n \<le> 0 then ''0.'' @ replicate (nat (- n)) CHR ''0'' @ ds
              else
                (let e = n - 1;
                     es = (if e < 0 then ''-'' else ''+'') @ decimal_digits \<bar>e\<bar>
                 in if k = 1 then ds @ ''e'' @ es
                    else take 1 ds @ ''.'' @ drop 1 ds @ ''e'' @ es)))"

text \<open>
  The text of a number in a template literal \<^verbatim>\<open>`${x}`\<close>. Both zeros print as \<^verbatim>\<open>0\<close>.
\<close>

definition number_to_string :: "number \<Rightarrow> string" where
  "number_to_string x =
     (case x of
        NaN \<Rightarrow> ''NaN''
      | PosInfinity \<Rightarrow> ''Infinity''
      | NegInfinity \<Rightarrow> ''-Infinity''
      | NegZero \<Rightarrow> ''0''
      | Finite q \<Rightarrow>
          if q = 0 then ''0''
          else if q < 0 then ''-'' @ positive_to_string (- q)
          else positive_to_string q)"

section \<open>The chart creator: data model\<close>

datatype ChartType = Line | Bar | Area | Pie

record DataPoint =
  name :: string
  "value" :: number

record Template =
  name :: string
  description :: string
  format :: string
  example :: "DataPoint list"

definition templates :: "Template list" where
  "templates =
     [\<lparr>name = ''Monthly Sales'',
       description = ''Track monthly sales performance'',
       format = ''Month (string), Sales Amount (number)'',
       example =
         [\<lparr>DataPoint.name = ''Jan'', value = Finite 1200\<rparr>,
          \<lparr>DataPoint.name = ''Feb'', value = Finite 1900\<rparr>,
          \<lparr>DataPoint.name = ''Mar'', value = Finite 1600\<rparr>,
          \<lparr>DataPoint.name = ''Apr'', value = Finite 2100\<rparr>]\<rparr>,
      \<lparr>name = ''Product Categories'',
       description = ''Compare sales across product categories'',
       format = ''Category (string), Revenue (number)'',
       example =
         [\<lparr>DataPoint.name = ''Electronics'', value = Finite 5400\<rparr>,
          \<lparr>DataPoint.name = ''Clothing'', value = Finite 3200\<rparr>,
          \<lparr>DataPoint.name = ''Books'', value = Finite 2100\<rparr>,
          \<lparr>DataPoint.name = ''Home'', value = Finite 4300\<rparr>]\<rparr>,
      \<lparr>name = ''Weekly Traffic'',
       description = ''Website traffic by weekday'',
       format = ''Day (string), Visitors (number)'',
       example =
         [\<lparr>DataPoint.name = ''Mon'', value = Finite 2500\<rparr>,
          \<lparr>DataPoint.name = ''Tue'', value = Finite 3100\<rparr>,
          \<lparr>DataPoint.name = ''Wed'', value = Finite 3800\<rparr>,
          \<lparr>DataPoint.name = ''Thu'', value = Finite 3600\<rparr>,
          \<lparr>DataPoint.name = ''Fri'', value = Finite 3200\<rparr>]\<rparr>]"

text \<open>The state of the component \<^verbatim>\<open>ChartCreator\<close>: its five \<^verbatim>\<open>useState\<close> cells.\<close>

record ChartCreator =
  chartType :: ChartType
  data :: "DataPoint list"
  newName :: string
  newValue :: string
  selectedTemplate :: "Template option"

definition initial :: ChartCreator where
  "initial = \<lparr>chartType = Line, data = [], newName = [], newValue = [], selectedTemplate = None\<rparr>"

section \<open>The chart creator: operations\<close>

text \<open>
  \<^verbatim>\<open>addDataPoint\<close>. A string is truthy when it is not empty. The value is
  \<^verbatim>\<open>Number(newValue)\<close>, stored as it is.
\<close>

definition addDataPoint :: "ChartCreator \<Rightarrow> ChartCreator" where
  "addDataPoint s =
     (if newName s \<noteq> [] \<and> newValue s \<noteq> [] then
        s\<lparr>data := data s @ [\<lparr>DataPoint.name = newName s, value = Number (Some (newValue s))\<rparr>],
          newName := [],
          newValue := []\<rparr>
      else s)"

text \<open>\<^verbatim>\<open>xs.filter((x, i) => p(x, i))\<close>: the elements kept, in their order.\<close>

definition filter_indexed :: "('a \<Rightarrow> nat \<Rightarrow> bool) \<Rightarrow> 'a list \<Rightarrow> 'a list" where
  "filter_indexed p xs = map fst (filter (\<lambda>(x, i). p x i) (zip xs [0..<length xs]))"

text \<open>
  \<^verbatim>\<open>removeDataPoint\<close>: keeps the elements whose position differs from \<open>index\<close>. The index
  is taken as an integer of any sign; the positions of an array are the naturals below its
  length.
\<close>

definition removeDataPoint :: "int \<Rightarrow> ChartCreator \<Rightarrow> ChartCreator" where
  "removeDataPoint index s = s\<lparr>data := filter_indexed (\<lambda>_ i. int i \<noteq> index) (data s)\<rparr>"

text \<open>\<^verbatim>\<open>loadTemplate\<close>: records the template and replaces the data by its example.\<close>

definition loadTemplate :: "Template \<Rightarrow> ChartCreator \<Rightarrow> ChartCreator" where
  "loadTemplate template s = s\<lparr>selectedTemplate := Some template, data := example template\<rparr>"

text \<open>
  The body of the loop of \<^verbatim>\<open>handleFileUpload\<close> for the line \<open>l\<close>: the array
  \<open>newData\<close> after the iteration. \<^verbatim>\<open>split\<close> never returns the empty array, so the first
  field is always there; the second is \<^verbatim>\<open>undefined\<close> (\<open>None\<close>) when the line has no comma.
  Fields after the second are not read.
\<close>

definition csv_row :: "string \<Rightarrow> DataPoint list \<Rightarrow> DataPoint list" where
  "csv_row l newData =
     (let line = trim l
      in if line \<noteq> [] then
           (case map trim (split_on CHR '','' line) of
              [] \<Rightarrow> newData
            | nameStr # rest \<Rightarrow>
                (let valueStr = (case rest of [] \<Rightarrow> None | v # _ \<Rightarrow> Some v);
                     valueNum = Number valueStr
                 in if \<not> isNaN valueNum
                    then newData @ [\<lparr>DataPoint.name = nameStr, value = valueNum\<rparr>]
                    else newData))
         else newData)"

text \<open>The loop \<^verbatim>\<open>for (let i = 1; i < lines.length; i++)\<close>, entered at \<open>i\<close>.\<close>

function csv_loop :: "string list \<Rightarrow> nat \<Rightarrow> DataPoint list \<Rightarrow> DataPoint list" where
  "csv_loop lines i newData =
     (if i < length lines then csv_loop lines (Suc i) (csv_row (lines ! i) newData)
      else newData)"
  by pat_completeness auto
termination
  by (relation "measure (\<lambda>(lines, i, newData). length lines - i)") auto

declare csv_loop.simps [simp del]

definition newline :: char where
  "newline = CHR ''\<newline>''"

text \<open>
  The handler \<^verbatim>\<open>reader.onload\<close> on the text of the file. Nothing in its
  \<^verbatim>\<open>try\<close> block throws on a string, so the \<^verbatim>\<open>catch\<close> branch is not entered.
\<close>

definition reader_onload :: "string \<Rightarrow> ChartCreator \<Rightarrow> ChartCreator" where
  "reader_onload content s =
     (let lines = split_on newline content
      in s\<lparr>data := csv_loop lines 1 []\<rparr>)"

text \<open>
  \<^verbatim>\<open>handleFileUpload\<close>: \<open>None\<close> when the event carries no file, else the text that
  \<^verbatim>\<open>readAsText\<close> delivers to the handler.
\<close>

definition handleFileUpload :: "string option \<Rightarrow> ChartCreator \<Rightarrow> ChartCreator" where
  "handleFileUpload file s = (case file of None \<Rightarrow> s | Some content \<Rightarrow> reader_onload content s)"

text \<open>
  What \<^verbatim>\<open>downloadTemplate\<close> hands to the browser: the \<^verbatim>\<open>download\<close> attribute of the
  link (the file name), and the text and the type of the blob.
\<close>

record Link =
  download :: string
  blob :: string
  blob_type :: string

definition downloadTemplate :: "ChartCreator \<Rightarrow> Link option" where
  "downloadTemplate s =
     (case selectedTemplate s of
        None \<Rightarrow> None
      | Some t \<Rightarrow>
          (let header = ''name,value'' @ [newline];
               content = join [newline]
                 (map (\<lambda>point. DataPoint.name point @ '','' @ number_to_string (value point))
                    (example t))
           in Some \<lparr>download = replace_ws_runs (toLowerCase (name t)) @ ''-template.csv'',
                     blob = header @ content,
                     blob_type = ''text/csv''\<rparr>))"

section \<open>Notions used to state the properties\<close>

text \<open>The first line of a text: what stands before the first line feed.\<close>

definition first_line :: "string \<Rightarrow> string" where
  "first_line txt = (case split_on newline txt of [] \<Rightarrow> [] | l # _ \<Rightarrow> l)"

text \<open>No value of the data is \<^verbatim>\<open>NaN\<close>; every value of the data is finite.\<close>

definition no_NaN :: "DataPoint list \<Rightarrow> bool" where
  "no_NaN ds = list_all (\<lambda>p. \<not> isNaN (value p)) ds"

definition all_finite :: "DataPoint list \<Rightarrow> bool" where
  "all_finite ds = list_all (\<lambda>p. isFinite (value p)) ds"

text \<open>
  The file name as the specification words it: the template name in lower case, each
  space replaced by a hyphen, followed by \<^verbatim>\<open>-template.csv\<close>.
\<close>

definition spec_file_name :: "string \<Rightarrow> string" where
  "spec_file_name n =
     map (\<lambda>c. if c = CHR '' '' then CHR ''-'' else c) (toLowerCase n) @ ''-template.csv''"

text \<open>The only white space of the text are spaces, none next to another.\<close>

fun single_spaced :: "string \<Rightarrow> bool" where
  "single_spaced [] = True"
| "single_spaced (c # cs) =
     (if is_ws c
      then c = CHR '' '' \<and> (case cs of [] \<Rightarrow> True | d # _ \<Rightarrow> \<not> is_ws d) \<and> single_spaced cs
      else single_spaced cs)"

text \<open>
  A point that the export writes as a line which the import reads back as the same point:
  its name has no white space around it, no comma and no line feed, and its value is a
  number whose text \<^verbatim>\<open>Number\<close> reads back as that number.
\<close>

definition round_trips :: "DataPoint \<Rightarrow> bool" where
  "round_trips p =
     (trim (DataPoint.name p) = DataPoint.name p \<and>
      CHR '','' \<notin> set (DataPoint.name p) \<and>
      newline \<notin> set (DataPoint.name p) \<and>
      \<not> isNaN (value p) \<and>
      Number (Some (number_to_string (value p))) = value p)"

text \<open>The characters that occur in the text of a number.\<close>

definition number_chars :: "char set" where
  "number_chars = set ''0123456789.e+-InfityNa''"

section \<open>Exactness of the rounding on small integers\<close>

lemma bit_length_bounds:
  "0 < n \<Longrightarrow> 2 ^ (bit_length n - 1) \<le> n \<and> n < 2 ^ bit_length n"
proof (induction n rule: bit_length.induct)
  case (1 n)
  show ?case
  proof (cases "n = 1")
    case True
    then show ?thesis by (simp add: bit_length.simps [of 1] bit_length.simps [of 0])
  next
    case False
    with "1.prems" have pos: "0 < n div 2" by simp
    with "1.IH" "1.prems"
    have IH: "2 ^ (bit_length (n div 2) - 1) \<le> n div 2" "n div 2 < 2 ^ bit_length (n div 2)"
      by auto
    have bl: "bit_length n = Suc (bit_length (n div 2))"
      using "1.prems" by (simp add: bit_length.simps [of n])
    have "0 < bit_length (n div 2)"
      using pos by (simp add: bit_length.simps [of "n div 2"])
    then obtain k where k: "bit_length (n div 2) = Suc k"
      by (cases "bit_length (n div 2)") auto
    from IH k have "2 * 2 ^ k \<le> n" "n < 2 * 2 ^ Suc k"
      by auto
    then show ?thesis by (simp add: bl k)
  qed
qed

lemma round_half_even_of_int: "round_half_even (of_int z) = z"
  by (simp add: round_half_even_def)

text \<open>An integer below \<open>2 ^ 53\<close> is a double: rounding leaves it as it is.\<close>

lemma round_double_int:
  assumes "0 < n" "n < 2 ^ 53"
  shows "round_double False (of_int n) = Finite (of_int n)"
proof -
  define b where "b = bit_length n"
  from bit_length_bounds [OF assms(1)]
  have lo: "2 ^ (b - 1) \<le> n" and hi: "n < 2 ^ b" by (simp_all add: b_def)
  have "0 < b" using assms(1) by (simp add: b_def bit_length.simps [of n])
  have "b \<le> 53"
  proof (rule ccontr)
    assume "\<not> b \<le> 53"
    then have "53 \<le> b - 1" by simp
    then have "(2::int) ^ 53 \<le> 2 ^ (b - 1)" by (rule power_increasing) simp
    with lo assms(2) show False by simp
  qed
  have fl: "floor_log2 (of_int n) = int b - 1"
    using assms(1) by (simp add: floor_log2_def b_def)
  have ex: "max (floor_log2 (of_int n) - 52) (- 1074) = - int (53 - b)"
    using \<open>0 < b\<close> \<open>b \<le> 53\<close> by (simp add: fl)
  have sc: "(of_int n :: rat) / 2 powi (- int (53 - b)) = of_int (n * 2 ^ (53 - b))"
    by (simp add: power_int_minus field_simps)
  have unscale: "(of_int (n * 2 ^ (53 - b)) :: rat) * 2 powi (- int (53 - b)) = of_int n"
    by (simp add: power_int_minus field_simps)
  have small: "\<not> (2::rat) ^ 1024 \<le> of_int n"
  proof -
    have "(of_int n :: rat) < of_int (2 ^ 53)" using assms(2) by (simp only: of_int_less_iff)
    also have "\<dots> \<le> 2 ^ 1024" by simp
    finally show ?thesis by simp
  qed
  have nz: "(of_int n :: rat) \<noteq> 0" and pos: "\<not> (of_int n :: rat) \<le> 0" using assms(1) by simp_all
  show ?thesis
    unfolding round_double_def Let_def ex sc round_half_even_of_int unscale
    using small nz pos by simp
qed

lemma round_double_numeral:
  "numeral k < (2 ^ 53 :: int) \<Longrightarrow> round_double False (numeral k) = Finite (numeral k)"
  using round_double_int [of "numeral k"] by simp

lemmas number_eval =
  Number_def StringToNumber_def trim_def trimStart_def trimEnd_def is_ws_def non_decimal_literal_def unsigned_decimal_def
  unsigned_decimal_value_def is_digit_def exponent_part_def digits_value_def radix_digit_def
  round_double_numeral Let_def

section \<open>Manual entry and removal\<close>

text \<open>
  C7. \<^verbatim>\<open>addDataPoint\<close> with a non-empty name and a non-empty value text appends exactly
  one element, the point of that name with the value \<^verbatim>\<open>Number(newValue)\<close>, at the end of
  the data: the length grows by one and every earlier element stays at its position.
  With an empty name or an empty value text it changes nothing.
\<close>

theorem addDataPoint_appends_or_ignores:
  "(newName s \<noteq> [] \<and> newValue s \<noteq> [] \<longrightarrow>
      data (addDataPoint s) =
        data s @ [\<lparr>DataPoint.name = newName s, value = Number (Some (newValue s))\<rparr>] \<and>
      length (data (addDataPoint s)) = length (data s) + 1 \<and>
      (\<forall>i < length (data s). data (addDataPoint s) ! i = data s ! i)) \<and>
   (newName s = [] \<or> newValue s = [] \<longrightarrow> addDataPoint s = s)"
  by (auto simp: addDataPoint_def nth_append)

theorem addDataPoint_appends_or_ignores_witness:
  "data (addDataPoint (initial\<lparr>newName := ''Jan'', newValue := ''1200''\<rparr>)) =
     [\<lparr>DataPoint.name = ''Jan'', value = Finite 1200\<rparr>] \<and>
   addDataPoint (initial\<lparr>newName := ''Jan'', newValue := []\<rparr>) =
     initial\<lparr>newName := ''Jan'', newValue := []\<rparr>"
  using addDataPoint_appends_or_ignores [of "initial\<lparr>newName := ''Jan'', newValue := ''1200''\<rparr>"]
    addDataPoint_appends_or_ignores [of "initial\<lparr>newName := ''Jan'', newValue := []\<rparr>"]
  by (simp add: initial_def number_eval)

lemma filter_zip_upt:
  "map fst (filter (\<lambda>(x, i). i \<noteq> j) (zip xs [k..<k + length xs])) =
     (if k \<le> j \<and> j < k + length xs then take (j - k) xs @ drop (Suc (j - k)) xs else xs)"
proof (induction xs arbitrary: k)
  case Nil
  then show ?case by simp
next
  case (Cons x xs)
  have "[k..<k + length (x # xs)] = k # [Suc k..<k + length (x # xs)]"
    by (rule upt_conv_Cons) simp
  then have upt: "[k..<k + length (x # xs)] = k # [Suc k..<Suc k + length xs]"
    by simp
  show ?case
  proof (cases "k = j")
    case True
    show ?thesis
      unfolding upt using Cons.IH [of "Suc k"] True by (simp del: upt_Suc)
  next
    case False
    show ?thesis
    proof (cases "k < j")
      case True
      then obtain d where d: "j = Suc k + d"
        using less_imp_Suc_add by auto
      show ?thesis
        unfolding upt using Cons.IH [of "Suc k"] by (simp add: d del: upt_Suc)
    next
      case False
      with \<open>k \<noteq> j\<close> have "j < k" by simp
      then show ?thesis
        unfolding upt using Cons.IH [of "Suc k"] by (simp del: upt_Suc)
    qed
  qed
qed

lemma filter_indexed_neq:
  "filter_indexed (\<lambda>_ i. i \<noteq> j) xs =
     (if j < length xs then take j xs @ drop (Suc j) xs else xs)"
  using filter_zip_upt [of j xs 0] by (simp add: filter_indexed_def)

lemma filter_indexed_int:
  "filter_indexed (\<lambda>_ i. int i \<noteq> index) xs =
     (if 0 \<le> index \<and> index < int (length xs)
      then take (nat index) xs @ drop (Suc (nat index)) xs else xs)"
proof (cases "0 \<le> index")
  case True
  then have "(\<lambda>(_::'a) i. int i \<noteq> index) = (\<lambda>_ i. i \<noteq> nat index)"
    by (auto simp: fun_eq_iff)
  with True show ?thesis by (simp add: filter_indexed_neq nat_less_iff)
next
  case False
  then have "(\<lambda>(_::'a) i. int i \<noteq> index) = (\<lambda>_ i. True)"
    by (auto simp: fun_eq_iff)
  with False show ?thesis by (simp add: filter_indexed_def)
qed

text \<open>
  C8. For data of length \<open>n\<close> and an index \<open>0 \<le> i < n\<close>, \<^verbatim>\<open>removeDataPoint\<close> leaves
  the elements before position \<open>i\<close> followed by the elements after it, in their order:
  \<open>n - 1\<close> elements, all but the one at \<open>i\<close>.
\<close>

theorem removeDataPoint_in_range:
  assumes "0 \<le> i" and "i < int (length (data s))"
  shows "data (removeDataPoint i s) = take (nat i) (data s) @ drop (Suc (nat i)) (data s) \<and>
         length (data (removeDataPoint i s)) = length (data s) - 1"
  using assms by (auto simp: removeDataPoint_def filter_indexed_int)

theorem removeDataPoint_in_range_witness:
  "data (removeDataPoint 1 (loadTemplate (templates ! 0) initial)) =
     [\<lparr>DataPoint.name = ''Jan'', value = Finite 1200\<rparr>,
      \<lparr>DataPoint.name = ''Mar'', value = Finite 1600\<rparr>,
      \<lparr>DataPoint.name = ''Apr'', value = Finite 2100\<rparr>] \<and>
   length (data (removeDataPoint 1 (loadTemplate (templates ! 0) initial))) = 3"
  using removeDataPoint_in_range [of 1 "loadTemplate (templates ! 0) initial"]
  by (simp add: loadTemplate_def templates_def initial_def)

text \<open>
  C10. For an index outside \<open>0 \<le> i < n\<close>, negative or too large, \<^verbatim>\<open>removeDataPoint\<close>
  returns the state as it was: no position equals the index, so every element is kept.
\<close>

theorem removeDataPoint_out_of_range:
  assumes "i < 0 \<or> int (length (data s)) \<le> i"
  shows "removeDataPoint i s = s"
  using assms by (auto simp: removeDataPoint_def filter_indexed_int)

theorem removeDataPoint_out_of_range_witness:
  "removeDataPoint (- 1) (loadTemplate (templates ! 0) initial) = loadTemplate (templates ! 0) initial \<and>
   removeDataPoint 4 (loadTemplate (templates ! 0) initial) = loadTemplate (templates ! 0) initial"
  using removeDataPoint_out_of_range [of "- 1" "loadTemplate (templates ! 0) initial"]
    removeDataPoint_out_of_range [of 4 "loadTemplate (templates ! 0) initial"]
  by (simp add: loadTemplate_def templates_def initial_def)

section \<open>Evaluating the text of a number\<close>

lemma floor_rat_numeral: "\<lfloor>numeral a / numeral b :: rat\<rfloor> = numeral a div numeral b"
  using floor_divide_of_int_eq [of "numeral a" "numeral b", where ?'a = rat] by simp

lemma ceiling_rat_numeral: "\<lceil>numeral a / numeral b :: rat\<rceil> = - (- numeral a div numeral b)"
  using floor_divide_of_int_eq [of "- numeral a" "numeral b", where ?'a = rat]
  by (simp add: ceiling_def)

lemma replicate_numeral: "replicate (numeral k) x = x # replicate (pred_numeral k) x"
  by (simp add: numeral_eq_Suc)

lemmas to_string_eval = replicate_numeral
  number_to_string_def positive_to_string_def shortest_digits_def digit_candidates_def
  nearer_def decimal_exponent_def decimal_digits.simps digit_char_def round_double_numeral Let_def
  floor_rat_numeral ceiling_rat_numeral


section \<open>Splitting, trimming and the import loop\<close>

lemma split_on_not_Nil: "split_on sep s \<noteq> []"
  by (induction s) (auto split: list.splits)

lemma split_on_no_sep: "sep \<notin> set s \<Longrightarrow> split_on sep s = [s]"
  by (induction s) auto

lemma split_on_append: "sep \<notin> set a \<Longrightarrow> split_on sep (a @ sep # r) = a # split_on sep r"
  by (induction a) auto

lemma split_on_join:
  "ls \<noteq> [] \<Longrightarrow> \<forall>l \<in> set ls. sep \<notin> set l \<Longrightarrow> split_on sep (join [sep] ls) = ls"
proof (induction "[sep]" ls rule: join.induct)
  case 1
  then show ?case by simp
next
  case (2 x)
  then show ?case by (simp add: split_on_no_sep)
next
  case (3 x y ys)
  then show ?case by (simp add: split_on_append)
qed

lemma csv_row_append: "csv_row l acc = acc @ csv_row l []"
  by (simp add: csv_row_def Let_def split: list.splits)

lemma csv_loop_foldl: "csv_loop lines i acc = foldl (\<lambda>a l. csv_row l a) acc (drop i lines)"
proof (induction lines i acc rule: csv_loop.induct)
  case (1 lines i newData)
  show ?case
  proof (cases "i < length lines")
    case True
    then have "drop i lines = lines ! i # drop (Suc i) lines"
      by (simp add: Cons_nth_drop_Suc)
    with True "1.IH" show ?thesis
      by (simp add: csv_loop.simps [of lines i])
  next
    case False
    then show ?thesis by (simp add: csv_loop.simps [of lines i])
  qed
qed

lemma foldl_csv_row: "foldl (\<lambda>a l. csv_row l a) acc ls = acc @ concat (map (\<lambda>l. csv_row l []) ls)"
proof (induction ls arbitrary: acc)
  case Nil
  then show ?case by simp
next
  case (Cons l ls)
  show ?case
    using Cons.IH [of "csv_row l acc"] csv_row_append [of l acc] by simp
qed

lemma csv_loop_rows: "csv_loop (h # ls) (Suc 0) [] = concat (map (\<lambda>l. csv_row l []) ls)"
  by (simp add: csv_loop_foldl foldl_csv_row)

lemma csv_loop_split:
  "csv_loop (h # pre @ l # post) 1 [] = csv_loop (h # pre) 1 [] @ csv_row l [] @ csv_loop (h # post) 1 []"
  by (simp add: csv_loop_rows)

lemma not_ws_comma: "\<not> is_ws CHR '',''"
  by (simp add: is_ws_def)

lemma trimStart_comma: "trimStart (a @ CHR '','' # r) = trimStart a @ CHR '','' # r"
  by (simp add: trimStart_def dropWhile_append not_ws_comma)

lemma trimEnd_comma: "trimEnd (a @ CHR '','' # r) = a @ CHR '','' # trimEnd r"
  by (simp add: trimEnd_def dropWhile_append not_ws_comma)

lemma trim_comma: "trim (a @ CHR '','' # r) = trimStart a @ CHR '','' # trimEnd r"
  by (simp add: trim_def trimStart_comma trimEnd_comma)

lemma trimEnd_Cons:
  "trimEnd (c # r) = (if (\<forall>x \<in> set r. is_ws x) \<and> is_ws c then [] else c # trimEnd r)"
  by (auto simp: trimEnd_def dropWhile_append)

lemma trimEnd_Nil: "trimEnd [] = []"
  by (simp add: trimEnd_def)

lemma trimEnd_all_ws: "\<forall>x \<in> set r. is_ws x \<Longrightarrow> trimEnd r = []"
  by (simp add: trimEnd_def)

lemma trimStart_trimEnd: "trimStart (trimEnd r) = trimEnd (trimStart r)"
proof (induction r)
  case Nil
  then show ?case by (simp add: trimStart_def trimEnd_def)
next
  case (Cons c r)
  show ?case
  proof (cases "is_ws c")
    case True
    show ?thesis
    proof (cases "\<forall>x \<in> set r. is_ws x")
      case True
      then have dw: "dropWhile is_ws r = []" by simp
      from True \<open>is_ws c\<close> show ?thesis
        by (simp add: trimEnd_Cons trimStart_def trimEnd_Nil dw)
    next
      case False
      with \<open>is_ws c\<close> Cons.IH show ?thesis
        by (auto simp: trimEnd_Cons trimStart_def)
    qed
  next
    case False
    then show ?thesis
      by (simp add: trimEnd_Cons trimStart_def)
  qed
qed

lemma trimEnd_idem: "trimEnd (trimEnd r) = trimEnd r"
  by (simp add: trimEnd_def)

lemma trimStart_idem: "trimStart (trimStart r) = trimStart r"
  by (simp add: trimStart_def)

lemma trim_trimEnd: "trim (trimEnd r) = trim r"
  by (simp add: trim_def trimStart_trimEnd trimEnd_idem)

lemma trim_trimStart: "trim (trimStart r) = trim r"
  by (simp add: trim_def trimStart_idem)

lemma trim_idem: "trim (trim r) = trim r"
  by (simp add: trim_def trimStart_trimEnd trimEnd_idem trimStart_idem)

lemma StringToNumber_trim: "StringToNumber (trim s) = StringToNumber s"
  by (simp add: StringToNumber_def trim_idem)

lemma set_trimStart: "set (trimStart a) \<subseteq> set a"
  using set_dropWhileD [of _ is_ws a] by (auto simp: trimStart_def)

lemma set_trimEnd: "set (trimEnd a) \<subseteq> set a"
  using set_dropWhileD [of _ is_ws "rev a"] by (auto simp: trimEnd_def)

text \<open>The fields of a line with a comma: the name, and the text up to the next comma.\<close>

lemma csv_row_comma:
  assumes "CHR '','' \<notin> set a"
  shows "csv_row (a @ CHR '','' # r) acc =
    (let valueNum = Number (Some (trim (hd (split_on CHR '','' (trimEnd r)))))
     in if isNaN valueNum then acc else acc @ [\<lparr>DataPoint.name = trim a, value = valueNum\<rparr>])"
proof -
  have "CHR '','' \<notin> set (trimStart a)"
    using assms set_trimStart by blast
  then have sp: "split_on CHR '','' (trim (a @ CHR '','' # r)) = trimStart a # split_on CHR '','' (trimEnd r)"
    by (simp add: trim_comma split_on_append)
  obtain f fs where f: "split_on CHR '','' (trimEnd r) = f # fs"
    using split_on_not_Nil [of "CHR '',''" "trimEnd r"] by (cases "split_on CHR '','' (trimEnd r)") auto
  have ne: "trim (a @ CHR '','' # r) \<noteq> []"
    by (simp add: trim_comma)
  show ?thesis
    using ne by (simp add: csv_row_def sp f trim_trimStart Let_def)
qed

lemma csv_row_one_comma:
  assumes "CHR '','' \<notin> set a" "CHR '','' \<notin> set b"
  shows "csv_row (a @ CHR '','' # b) acc =
    (if isNaN (Number (Some (trim b))) then acc
     else acc @ [\<lparr>DataPoint.name = trim a, value = Number (Some (trim b))\<rparr>])"
proof -
  have "CHR '','' \<notin> set (trimEnd b)" using assms(2) set_trimEnd by blast
  then show ?thesis
    using assms(1) by (simp add: csv_row_comma split_on_no_sep trim_trimEnd Let_def)
qed

lemma csv_row_more_commas:
  assumes "CHR '','' \<notin> set a" "CHR '','' \<notin> set b"
  shows "csv_row (a @ CHR '','' # b @ CHR '','' # c) acc =
    (if isNaN (Number (Some (trim b))) then acc
     else acc @ [\<lparr>DataPoint.name = trim a, value = Number (Some (trim b))\<rparr>])"
  using assms by (simp add: csv_row_comma trimEnd_comma split_on_append Let_def)

section \<open>Import of comma-separated text\<close>

lemmas import_eval =
  handleFileUpload_def reader_onload_def newline_def csv_loop_rows csv_row_def isNaN_def

text \<open>
  The import of a text with the line \<open>l\<close> after the header: the rows of the lines before
  it, the row of \<open>l\<close>, the rows of the lines after it.
\<close>

lemma import_lines:
  assumes "split_on newline content = hdr # pre @ [l] @ post"
  shows "data (handleFileUpload (Some content) s) =
           csv_loop (hdr # pre) 1 [] @ csv_row l [] @ csv_loop (hdr # post) 1 []"
  using assms csv_loop_split [of hdr pre l post]
  by (simp add: handleFileUpload_def reader_onload_def)

text \<open>
  C1, as stated, fails. The claim: a line with more than one comma has everything after
  its first comma taken as the value text, so the coercion fails and the row is dropped.
  The program splits the line at every comma and reads the first two fields only: the line
  \<^verbatim>\<open>Jan,1200,x\<close> gives the point \<^verbatim>\<open>Jan\<close> with the value 1200, and the data is not empty.
\<close>

theorem import_row_with_more_commas_counterexample:
  "data (handleFileUpload (Some ''name,value\<newline>Jan,1200,x'') initial) =
     [\<lparr>DataPoint.name = ''Jan'', value = Finite 1200\<rparr>] \<and>
   data (handleFileUpload (Some ''name,value\<newline>Jan,1200,x'') initial) \<noteq> []"
  by (simp add: import_eval number_eval initial_def)

text \<open>
  C1, amended. For every line after the header with more than one comma, that is a line
  \<open>a,b,c\<close> with no comma in \<open>a\<close> and none in \<open>b\<close>, the import takes the trimmed \<open>a\<close> as the
  name and the trimmed \<open>b\<close>, the text between the first and the second comma, as the
  value text, and does not read \<open>c\<close>. The row is kept when \<^verbatim>\<open>Number\<close> of that text is not
  \<^verbatim>\<open>NaN\<close> and dropped otherwise; the other lines give the rows they give on their own.
\<close>

theorem import_row_with_more_commas:
  assumes "split_on newline content = hdr # pre @ [a @ '','' @ b @ '','' @ c] @ post"
    and "CHR '','' \<notin> set a" and "CHR '','' \<notin> set b"
  shows "data (handleFileUpload (Some content) s) =
           csv_loop (hdr # pre) 1 [] @
           (if isNaN (Number (Some (trim b))) then []
            else [\<lparr>DataPoint.name = trim a, value = Number (Some (trim b))\<rparr>]) @
           csv_loop (hdr # post) 1 []"
  using import_lines [OF assms(1)] csv_row_more_commas [OF assms(2,3), of c "[]"]
  by simp

theorem import_row_with_more_commas_witness:
  "data (handleFileUpload (Some ''name,value\<newline>Jan,1200,x,y\<newline>Feb,abc,7'') initial) =
     [\<lparr>DataPoint.name = ''Jan'', value = Finite 1200\<rparr>]"
  using import_row_with_more_commas [of "''name,value\<newline>Jan,1200,x,y\<newline>Feb,abc,7''"
      "''name,value''" "[]" "''Jan''" "''1200''" "''x,y''" "[''Feb,abc,7'']" initial]
  by (simp add: import_eval number_eval)

text \<open>
  C2, as stated, fails. The claim: the five-line text gives the two points \<^verbatim>\<open>Jan\<close> and
  \<^verbatim>\<open>Mar\<close>. The program gives three points: the row \<^verbatim>\<open>,300\<close> with the empty name is
  kept, only the row \<^verbatim>\<open>Feb,abc\<close> is dropped.
\<close>

theorem import_example_counterexample:
  "data (handleFileUpload
      (Some ''name,value\<newline>Jan,1200\<newline>Feb,abc\<newline>,300\<newline>Mar,1600'') initial) =
     [\<lparr>DataPoint.name = ''Jan'', value = Finite 1200\<rparr>,
      \<lparr>DataPoint.name = [], value = Finite 300\<rparr>,
      \<lparr>DataPoint.name = ''Mar'', value = Finite 1600\<rparr>] \<and>
   data (handleFileUpload
      (Some ''name,value\<newline>Jan,1200\<newline>Feb,abc\<newline>,300\<newline>Mar,1600'') initial) \<noteq>
     [\<lparr>DataPoint.name = ''Jan'', value = Finite 1200\<rparr>,
      \<lparr>DataPoint.name = ''Mar'', value = Finite 1600\<rparr>]"
  by (simp add: import_eval number_eval initial_def)

text \<open>
  C2, amended. Whatever the header line \<open>h\<close> holds, the import of \<open>h\<close> followed by the
  lines \<^verbatim>\<open>Jan,1200\<close>, \<^verbatim>\<open>Feb,abc\<close>, \<^verbatim>\<open>,300\<close>, \<^verbatim>\<open>Mar,1600\<close> gives the three points
  \<^verbatim>\<open>Jan\<close> 1200, the empty name with 300, and \<^verbatim>\<open>Mar\<close> 1600: the row that is no number is
  dropped, and the header is never part of the data.
\<close>

theorem import_example:
  assumes "newline \<notin> set h"
  shows "data (handleFileUpload
           (Some (h @ ''\<newline>Jan,1200\<newline>Feb,abc\<newline>,300\<newline>Mar,1600'')) s) =
         [\<lparr>DataPoint.name = ''Jan'', value = Finite 1200\<rparr>,
          \<lparr>DataPoint.name = [], value = Finite 300\<rparr>,
          \<lparr>DataPoint.name = ''Mar'', value = Finite 1600\<rparr>]"
proof -
  have "split_on newline (h @ newline # ''Jan,1200\<newline>Feb,abc\<newline>,300\<newline>Mar,1600'') =
        h # split_on newline ''Jan,1200\<newline>Feb,abc\<newline>,300\<newline>Mar,1600''"
    using assms by (rule split_on_append)
  then have "split_on newline (h @ ''\<newline>Jan,1200\<newline>Feb,abc\<newline>,300\<newline>Mar,1600'') =
        [h, ''Jan,1200'', ''Feb,abc'', '',300'', ''Mar,1600'']"
    by (simp add: newline_def)
  then show ?thesis
    by (simp add: handleFileUpload_def reader_onload_def csv_loop_rows csv_row_def isNaN_def
        number_eval)
qed

theorem import_example_witness:
  "data (handleFileUpload
      (Some ''Dec,900\<newline>Jan,1200\<newline>Feb,abc\<newline>,300\<newline>Mar,1600'') initial) =
     [\<lparr>DataPoint.name = ''Jan'', value = Finite 1200\<rparr>,
      \<lparr>DataPoint.name = [], value = Finite 300\<rparr>,
      \<lparr>DataPoint.name = ''Mar'', value = Finite 1600\<rparr>]"
  using import_example [of "''Dec,900''" initial]
  by (simp add: newline_def)

text \<open>
  C9. The import filters a row on the coercion of its value text only, never on its name:
  a line \<open>a,v\<close> with one comma gives the point with the trimmed \<open>a\<close> as name, empty or not,
  exactly when \<^verbatim>\<open>Number\<close> of the trimmed \<open>v\<close> is not \<^verbatim>\<open>NaN\<close>. The row \<^verbatim>\<open>,300\<close> gives
  the point of the empty name with the value 300.
\<close>

theorem import_keeps_row_with_empty_name:
  assumes "split_on newline content = hdr # pre @ [a @ '','' @ v] @ post"
    and "CHR '','' \<notin> set a" and "CHR '','' \<notin> set v"
  shows "data (handleFileUpload (Some content) s) =
           csv_loop (hdr # pre) 1 [] @
           (if isNaN (Number (Some (trim v))) then []
            else [\<lparr>DataPoint.name = trim a, value = Number (Some (trim v))\<rparr>]) @
           csv_loop (hdr # post) 1 []"
  using import_lines [OF assms(1)] csv_row_one_comma [OF assms(2,3), of "[]"]
  by simp

theorem import_keeps_row_with_empty_name_witness:
  "data (handleFileUpload (Some ''name,value\<newline>,300'') initial) =
     [\<lparr>DataPoint.name = [], value = Finite 300\<rparr>]"
  using import_keeps_row_with_empty_name [of "''name,value\<newline>,300''"
      "''name,value''" "[]" "[]" "''300''" "[]" initial]
  by (simp add: import_eval number_eval)

section \<open>The values that ingestion stores\<close>

lemma csv_row_no_NaN: "no_NaN acc \<Longrightarrow> no_NaN (csv_row l acc)"
  by (simp add: csv_row_def no_NaN_def Let_def split: list.splits)

lemma foldl_csv_row_no_NaN: "no_NaN acc \<Longrightarrow> no_NaN (foldl (\<lambda>a l. csv_row l a) acc ls)"
  by (induction ls arbitrary: acc) (simp_all add: csv_row_no_NaN)

lemma csv_loop_no_NaN: "no_NaN acc \<Longrightarrow> no_NaN (csv_loop lines i acc)"
  by (simp add: csv_loop_foldl foldl_csv_row_no_NaN)

text \<open>
  C3, as stated, fails. The claim: every ingestion keeps all values finite, for every
  input string. From the empty data, the import of the row \<^verbatim>\<open>x,Infinity\<close> stores an
  infinite value, since it tests \<^verbatim>\<open>isNaN\<close> only; and \<^verbatim>\<open>addDataPoint\<close> with the value text
  \<^verbatim>\<open>abc\<close> stores \<^verbatim>\<open>NaN\<close>, since it tests nothing but emptiness.
\<close>

theorem ingestion_finite_counterexample:
  "all_finite (data initial) \<and>
   \<not> all_finite (data (handleFileUpload (Some ''name,value\<newline>x,Infinity'') initial)) \<and>
   \<not> no_NaN (data (addDataPoint (initial\<lparr>newName := ''x'', newValue := ''abc''\<rparr>)))"
  by (simp add: import_eval number_eval initial_def all_finite_def no_NaN_def isFinite_def
      addDataPoint_def)

text \<open>
  C3, amended. No value stored by the import is \<^verbatim>\<open>NaN\<close>, for every text (an infinite
  value may be stored); \<^verbatim>\<open>loadTemplate\<close> on a template of the program stores finite values
  only; and \<^verbatim>\<open>addDataPoint\<close> keeps the data free of \<^verbatim>\<open>NaN\<close> whenever its value text
  coerces to a number.
\<close>

theorem ingestion_no_NaN:
  "no_NaN (data (handleFileUpload (Some content) s)) \<and>
   (t \<in> set templates \<longrightarrow> all_finite (data (loadTemplate t s))) \<and>
   (no_NaN (data s) \<and> \<not> isNaN (Number (Some (newValue s))) \<longrightarrow> no_NaN (data (addDataPoint s)))"
proof (intro conjI impI)
  have "no_NaN []" by (simp add: no_NaN_def)
  then show "no_NaN (data (handleFileUpload (Some content) s))"
    by (simp add: handleFileUpload_def reader_onload_def csv_loop_no_NaN)
  show "all_finite (data (loadTemplate t s))" if "t \<in> set templates"
    using that by (auto simp: templates_def loadTemplate_def all_finite_def isFinite_def)
  show "no_NaN (data (addDataPoint s))"
    if "no_NaN (data s) \<and> \<not> isNaN (Number (Some (newValue s)))"
    using that by (simp add: addDataPoint_def no_NaN_def)
qed

theorem ingestion_no_NaN_witness:
  "no_NaN (data (handleFileUpload (Some ''name,value\<newline>x,Infinity\<newline>y,abc'') initial)) \<and>
   all_finite (data (loadTemplate (templates ! 0) initial)) \<and>
   no_NaN (data (addDataPoint (initial\<lparr>newName := ''x'', newValue := ''1200''\<rparr>)))"
  using ingestion_no_NaN [of "''name,value\<newline>x,Infinity\<newline>y,abc''" initial "templates ! 0"]
    ingestion_no_NaN [of "[]" "initial\<lparr>newName := ''x'', newValue := ''1200''\<rparr>" "templates ! 0"]
  by (simp add: templates_def initial_def no_NaN_def isNaN_def number_eval)

section \<open>Download of a template\<close>

lemma first_line_header_append: "first_line (''name,value'' @ newline # rest) = ''name,value''"
proof -
  have "newline \<notin> set ''name,value''" by (simp add: newline_def)
  then have "split_on newline (''name,value'' @ newline # rest) = ''name,value'' # split_on newline rest"
    by (rule split_on_append)
  then show ?thesis by (simp add: first_line_def)
qed

lemmas first_line_header = first_line_header_append [simplified]

lemma header_split:
  "split_on newline (''name,value'' @ newline # rest) = ''name,value'' # split_on newline rest"
proof -
  have "newline \<notin> set ''name,value''" by (simp add: newline_def)
  then show ?thesis by (rule split_on_append)
qed

text \<open>The file name: lower case and hyphens.\<close>

lemma is_ws_to_lower: "is_ws (to_lower c) = is_ws c"
  by (auto simp: is_ws_def to_lower_def Let_def)

lemma to_lower_ws: "is_ws c \<Longrightarrow> to_lower c = c"
  by (auto simp: is_ws_def to_lower_def Let_def)

lemma is_ws_space: "is_ws CHR '' ''"
  by (simp add: is_ws_def)

lemma single_spaced_toLowerCase: "single_spaced (toLowerCase n) = single_spaced n"
proof (induction n)
  case Nil
  then show ?case by (simp add: toLowerCase_def)
next
  case (Cons c cs)
  have tl: "(case map to_lower cs of [] \<Rightarrow> True | d # _ \<Rightarrow> \<not> is_ws d) =
            (case cs of [] \<Rightarrow> True | d # _ \<Rightarrow> \<not> is_ws d)"
    by (cases cs) (simp_all add: is_ws_to_lower)
  show ?case
  proof (cases "is_ws c")
    case True
    with Cons.IH tl show ?thesis
      by (simp add: toLowerCase_def is_ws_to_lower to_lower_ws)
  next
    case False
    with Cons.IH show ?thesis
      by (simp add: toLowerCase_def is_ws_to_lower)
  qed
qed

lemma replace_ws_runs_single_spaced:
  "single_spaced n \<Longrightarrow>
   replace_ws_runs n = map (\<lambda>c. if c = CHR '' '' then CHR ''-'' else c) n"
proof (induction n)
  case Nil
  then show ?case by simp
next
  case (Cons c cs)
  show ?case
  proof (cases "is_ws c")
    case True
    with Cons.prems have c: "c = CHR '' ''" and ss: "single_spaced cs"
      and nx: "(case cs of [] \<Rightarrow> True | d # _ \<Rightarrow> \<not> is_ws d)"
      by simp_all
    from nx have "dropWhile is_ws cs = cs" by (cases cs) simp_all
    with True c Cons.IH [OF ss] show ?thesis by simp
  next
    case False
    with Cons.prems have ss: "single_spaced cs" by simp
    from False have "c \<noteq> CHR '' ''" using is_ws_space by auto
    with False Cons.IH [OF ss] show ?thesis by simp
  qed
qed

lemma file_name_as_specified:
  "single_spaced n \<Longrightarrow> replace_ws_runs (toLowerCase n) @ ''-template.csv'' = spec_file_name n"
  using replace_ws_runs_single_spaced [of "toLowerCase n"]
  by (simp add: single_spaced_toLowerCase spec_file_name_def)

text \<open>The text of a number has digits, a point, an exponent mark, signs and letters only.\<close>

lemma digit_char_in: "d < 10 \<Longrightarrow> digit_char d \<in> set ''0123456789''"
proof -
  assume "d < 10"
  then have "nat d < length ''0123456789''" by simp
  then have "''0123456789'' ! nat d \<in> set ''0123456789''" by (rule nth_mem)
  then show ?thesis by (simp only: digit_char_def)
qed

lemma decimal_digits_chars: "set (decimal_digits n) \<subseteq> set ''0123456789''"
proof (induction n rule: decimal_digits.induct)
  case (1 n)
  show ?case
  proof (cases "n < 10")
    case True
    then show ?thesis
      using digit_char_in [of n] by (simp add: decimal_digits.simps [of n])
  next
    case False
    have "n mod 10 < 10" by simp
    then have "digit_char (n mod 10) \<in> set ''0123456789''" by (rule digit_char_in)
    with False "1.IH" show ?thesis
      by (simp add: decimal_digits.simps [of n])
  qed
qed

lemma decimal_digits_number_chars: "set (decimal_digits n) \<subseteq> number_chars"
proof -
  have "set ''0123456789'' \<subseteq> number_chars" by (simp add: number_chars_def)
  with decimal_digits_chars [of n] show ?thesis by (rule order_trans)
qed

lemma positive_to_string_chars: "set (positive_to_string q) \<subseteq> number_chars"
proof -
  obtain sd n k where sh: "shortest_digits q = (sd, n, k)"
    by (cases "shortest_digits q") auto
  define ds where "ds = decimal_digits sd"
  define es where "es = decimal_digits \<bar>n - 1\<bar>"
  have ds: "set ds \<subseteq> number_chars" unfolding ds_def by (rule decimal_digits_number_chars)
  have tk: "set (take m ds) \<subseteq> number_chars" for m
    using ds set_take_subset [of m ds] by blast
  have dr: "set (drop m ds) \<subseteq> number_chars" for m
    using ds set_drop_subset [of m ds] by blast
  have es: "set es \<subseteq> number_chars" unfolding es_def by (rule decimal_digits_number_chars)
  have zs: "set (replicate m CHR ''0'') \<subseteq> number_chars" for m
    by (auto simp: number_chars_def)
  have lit: "set ''.'' \<subseteq> number_chars" "set ''0.'' \<subseteq> number_chars" "set ''e'' \<subseteq> number_chars"
    "set ''+'' \<subseteq> number_chars" "set ''-'' \<subseteq> number_chars"
    by (simp_all add: number_chars_def)
  have b1: "set (ds @ replicate m CHR ''0'') \<subseteq> number_chars" for m
    using ds zs [of m] by (simp only: set_append Un_subset_iff)
  have b2: "set (take m ds @ ''.'' @ drop m ds) \<subseteq> number_chars" for m
    using tk [of m] dr [of m] lit(1) by (simp only: set_append Un_subset_iff)
  have b3: "set (''0.'' @ replicate m CHR ''0'' @ ds) \<subseteq> number_chars" for m
    using ds zs [of m] lit(2) by (simp only: set_append Un_subset_iff)
  have sg: "set (if n - 1 < 0 then ''-'' else ''+'') \<subseteq> number_chars"
    using lit(4,5) by (cases "n - 1 < 0") simp_all
  have b4: "set (ds @ ''e'' @ (if n - 1 < 0 then ''-'' else ''+'') @ es) \<subseteq> number_chars"
    using ds es sg lit(3) by (simp only: set_append Un_subset_iff)
  have b5: "set (take 1 ds @ ''.'' @ drop 1 ds @ ''e'' @ (if n - 1 < 0 then ''-'' else ''+'') @ es)
            \<subseteq> number_chars"
    using tk [of 1] dr [of 1] es sg lit(1,3) by (simp only: set_append Un_subset_iff)
  have eq: "positive_to_string q =
      (if int k \<le> n \<and> n \<le> 21 then ds @ replicate (nat (n - int k)) CHR ''0''
       else if 0 < n \<and> n \<le> 21 then take (nat n) ds @ ''.'' @ drop (nat n) ds
       else if - 6 < n \<and> n \<le> 0 then ''0.'' @ replicate (nat (- n)) CHR ''0'' @ ds
       else if k = 1 then ds @ ''e'' @ (if n - 1 < 0 then ''-'' else ''+'') @ es
       else take 1 ds @ ''.'' @ drop 1 ds @ ''e'' @ (if n - 1 < 0 then ''-'' else ''+'') @ es)"
    by (simp only: positive_to_string_def sh prod.case Let_def ds_def es_def)
  show ?thesis
    by (simp only: eq b1 b2 b3 b4 b5 simp_thms split: if_split)
qed

lemma number_to_string_chars: "set (number_to_string x) \<subseteq> number_chars"
proof (cases x)
  case (Finite q)
  have z: "set ''0'' \<subseteq> number_chars" by (simp add: number_chars_def)
  have "set (''-'' @ positive_to_string (- q)) \<subseteq> number_chars"
    using positive_to_string_chars [of "- q"] by (simp add: number_chars_def)
  with z positive_to_string_chars [of q] show ?thesis
    by (simp add: number_to_string_def Finite)
qed (simp_all add: number_to_string_def number_chars_def)

lemma number_chars_plain: "CHR '','' \<notin> number_chars" "newline \<notin> number_chars"
  by (simp_all add: number_chars_def newline_def)

lemma number_to_string_no_comma: "CHR '','' \<notin> set (number_to_string x)"
  using number_to_string_chars [of x] number_chars_plain(1) by blast

lemma number_to_string_no_newline: "newline \<notin> set (number_to_string x)"
  using number_to_string_chars [of x] number_chars_plain(2) by blast

lemma newline_not_comma: "newline \<noteq> CHR '',''"
  by (simp add: newline_def)

lemma export_lines:
  fixes ps :: "DataPoint list"
  assumes "ps \<noteq> []" and "list_all (\<lambda>p. newline \<notin> set (DataPoint.name p)) ps"
  shows "split_on newline
           (''name,value'' @ newline #
            join [newline] (map (\<lambda>p. DataPoint.name p @ CHR '','' # number_to_string (value p)) ps)) =
         ''name,value'' # map (\<lambda>p. DataPoint.name p @ CHR '','' # number_to_string (value p)) ps"
proof -
  define row :: "DataPoint \<Rightarrow> string"
    where "row = (\<lambda>p. DataPoint.name p @ CHR '','' # number_to_string (value p))"
  have "\<forall>l \<in> set (map row ps). newline \<notin> set l"
  proof
    fix l
    assume "l \<in> set (map row ps)"
    then obtain p where p: "p \<in> set ps" "l = row p" by auto
    from assms(2) p(1) have "newline \<notin> set (DataPoint.name p)" by (simp add: list_all_iff)
    then show "newline \<notin> set l"
      using number_to_string_no_newline [of "value p"] newline_not_comma
      by (simp add: p(2) row_def)
  qed
  moreover from assms(1) have "map row ps \<noteq> []" by simp
  ultimately have "split_on newline (join [newline] (map row ps)) = map row ps"
    by (simp add: split_on_join)
  then show ?thesis
    unfolding header_split row_def by simp
qed

text \<open>
  C4, as stated, fails. The claim: the first line of the exported text is the header
  \<^verbatim>\<open>label,value\<close>. The program writes the header \<^verbatim>\<open>name,value\<close>, after the field names of
  a point.
\<close>

theorem downloadTemplate_header_counterexample:
  "map_option first_line (map_option blob (downloadTemplate (loadTemplate (templates ! 0) initial))) =
     Some ''name,value'' \<and>
   map_option first_line (map_option blob (downloadTemplate (loadTemplate (templates ! 0) initial))) \<noteq>
     Some ''label,value''"
  by (simp add: downloadTemplate_def loadTemplate_def first_line_header Let_def)

text \<open>
  C4, amended. For every template \<open>t\<close> that is selected, \<^verbatim>\<open>downloadTemplate\<close> offers a
  text of type \<^verbatim>\<open>text/csv\<close> whose first line is the header \<^verbatim>\<open>name,value\<close>; when no name
  of the example holds a line feed, the lines after the header are the points of the
  example in their order, each as its name, a comma and the text of its value; and when
  the only white space of the template name are single spaces, the file name is the name
  in lower case with each space replaced by a hyphen, followed by \<^verbatim>\<open>-template.csv\<close>.
\<close>

theorem downloadTemplate_header_and_file_name:
  assumes "selectedTemplate s = Some t"
  shows "map_option first_line (map_option blob (downloadTemplate s)) = Some ''name,value'' \<and>
         map_option blob_type (downloadTemplate s) = Some ''text/csv'' \<and>
         (example t \<noteq> [] \<and> list_all (\<lambda>p. newline \<notin> set (DataPoint.name p)) (example t) \<longrightarrow>
            map_option (split_on newline) (map_option blob (downloadTemplate s)) =
              Some (''name,value'' #
                    map (\<lambda>p. DataPoint.name p @ '','' @ number_to_string (value p)) (example t))) \<and>
         (single_spaced (name t) \<longrightarrow>
            map_option download (downloadTemplate s) = Some (spec_file_name (name t)))"
  using assms export_lines [of "example t"]
  by (simp add: downloadTemplate_def first_line_header file_name_as_specified Let_def
      del: split_on.simps)

theorem downloadTemplate_header_and_file_name_witness:
  "map_option first_line (map_option blob (downloadTemplate (loadTemplate (templates ! 1) initial))) =
     Some ''name,value'' \<and>
   map_option (split_on newline)
     (map_option blob (downloadTemplate (loadTemplate (templates ! 1) initial))) =
     Some [''name,value'', ''Electronics,5400'', ''Clothing,3200'', ''Books,2100'', ''Home,4300''] \<and>
   map_option download (downloadTemplate (loadTemplate (templates ! 1) initial)) =
     Some ''product-categories-template.csv''"
  using downloadTemplate_header_and_file_name
    [of "loadTemplate (templates ! 1) initial" "templates ! 1"]
  by (simp add: loadTemplate_def templates_def spec_file_name_def toLowerCase_def to_lower_def
      is_ws_def downloadTemplate_def first_line_header char_of_eq_iff newline_def to_string_eval
      Let_def)

text \<open>The file names of the three templates of the program.\<close>

lemma file_names:
  "map (\<lambda>t. map_option download (downloadTemplate (loadTemplate t s))) templates =
     [Some ''monthly-sales-template.csv'', Some ''product-categories-template.csv'',
      Some ''weekly-traffic-template.csv'']"
  by (simp add: downloadTemplate_def loadTemplate_def templates_def toLowerCase_def to_lower_def
      is_ws_def char_of_eq_iff Let_def)

lemma export0:
  "map_option blob (downloadTemplate (loadTemplate (templates ! 0) s)) =
     Some ''name,value\<newline>Jan,1200\<newline>Feb,1900\<newline>Mar,1600\<newline>Apr,2100''"
  by (simp add: downloadTemplate_def loadTemplate_def templates_def newline_def to_string_eval)

lemma export1:
  "map_option blob (downloadTemplate (loadTemplate (templates ! 1) s)) =
     Some ''name,value\<newline>Electronics,5400\<newline>Clothing,3200\<newline>Books,2100\<newline>Home,4300''"
  by (simp add: downloadTemplate_def loadTemplate_def templates_def newline_def to_string_eval)

lemma export2:
  "map_option blob (downloadTemplate (loadTemplate (templates ! 2) s)) =
     Some ''name,value\<newline>Mon,2500\<newline>Tue,3100\<newline>Wed,3800\<newline>Thu,3600\<newline>Fri,3200''"
  by (simp add: downloadTemplate_def loadTemplate_def templates_def newline_def to_string_eval)

text \<open>
  C5. For the template \<^verbatim>\<open>Monthly Sales\<close>, the first of the program, \<^verbatim>\<open>downloadTemplate\<close>
  gives exactly the header \<^verbatim>\<open>name,value\<close> and the four rows of the example, joined by line
  feeds, with no line feed at the end.
\<close>

theorem downloadTemplate_monthly_sales:
  "name (templates ! 0) = ''Monthly Sales'' \<and>
   map_option blob (downloadTemplate (loadTemplate (templates ! 0) s)) =
     Some ''name,value\<newline>Jan,1200\<newline>Feb,1900\<newline>Mar,1600\<newline>Apr,2100''"
  using export0 [of s] by (simp add: templates_def)

section \<open>Reading an exported template back\<close>

lemma import0:
  "data (handleFileUpload (Some ''name,value\<newline>Jan,1200\<newline>Feb,1900\<newline>Mar,1600\<newline>Apr,2100'') s) = example (templates ! 0)"
  by (simp add: import_eval number_eval templates_def)

lemma import1:
  "data (handleFileUpload (Some ''name,value\<newline>Electronics,5400\<newline>Clothing,3200\<newline>Books,2100\<newline>Home,4300'') s) = example (templates ! 1)"
  by (simp add: import_eval number_eval templates_def)

lemma import2:
  "data (handleFileUpload (Some ''name,value\<newline>Mon,2500\<newline>Tue,3100\<newline>Wed,3800\<newline>Thu,3600\<newline>Fri,3200'') s) = example (templates ! 2)"
  by (simp add: import_eval number_eval templates_def)

lemma roundtrip0:
  "data (handleFileUpload (map_option blob (downloadTemplate (loadTemplate (templates ! 0) s))) s') =
     example (templates ! 0)"
  by (simp only: export0 import0)

lemma roundtrip1:
  "data (handleFileUpload (map_option blob (downloadTemplate (loadTemplate (templates ! 1) s))) s') =
     example (templates ! 1)"
  by (simp only: export1 import1)

lemma roundtrip2:
  "data (handleFileUpload (map_option blob (downloadTemplate (loadTemplate (templates ! 2) s))) s') =
     example (templates ! 2)"
  by (simp only: export2 import2)

text \<open>
  C6. For every template \<open>t\<close> of the program, the import of the text that
  \<^verbatim>\<open>downloadTemplate\<close> gives for \<open>t\<close> yields the example of \<open>t\<close>: the same points with the
  same names and values, in the same order.
\<close>

theorem import_of_template_export:
  assumes "t \<in> set templates"
  shows "data (handleFileUpload (map_option blob (downloadTemplate (loadTemplate t s))) s') =
         example t"
proof -
  from assms have "t = templates ! 0 \<or> t = templates ! 1 \<or> t = templates ! 2"
    by (auto simp: templates_def)
  then show ?thesis
    using roundtrip0 [of s s'] roundtrip1 [of s s'] roundtrip2 [of s s'] by blast
qed

theorem import_of_template_export_witness:
  "data (handleFileUpload
      (map_option blob (downloadTemplate (loadTemplate (templates ! 2) initial))) initial) =
     [\<lparr>DataPoint.name = ''Mon'', value = Finite 2500\<rparr>,
      \<lparr>DataPoint.name = ''Tue'', value = Finite 3100\<rparr>,
      \<lparr>DataPoint.name = ''Wed'', value = Finite 3800\<rparr>,
      \<lparr>DataPoint.name = ''Thu'', value = Finite 3600\<rparr>,
      \<lparr>DataPoint.name = ''Fri'', value = Finite 3200\<rparr>]"
  using import_of_template_export [of "templates ! 2" initial initial]
  by (simp add: templates_def)

text \<open>
  The same for any template whose points are written and read back unchanged, one by one;
  the points of the three templates of the program are such points.
\<close>

lemma csv_row_of_point:
  assumes "round_trips p"
  shows "csv_row (DataPoint.name p @ CHR '','' # number_to_string (value p)) [] = [p]"
proof -
  from assms have nm: "CHR '','' \<notin> set (DataPoint.name p)" "trim (DataPoint.name p) = DataPoint.name p"
    and v: "\<not> isNaN (value p)" "Number (Some (number_to_string (value p))) = value p"
    by (simp_all add: round_trips_def)
  have "Number (Some (trim (number_to_string (value p)))) = value p"
    using v(2) by (simp add: Number_def StringToNumber_trim)
  with nm v(1) show ?thesis
    using csv_row_one_comma [OF nm(1) number_to_string_no_comma, of "value p" "[]"]
    by simp
qed

lemma import_of_export_general:
  assumes "selectedTemplate s = Some t" and "list_all round_trips (example t)"
  shows "data (handleFileUpload (map_option blob (downloadTemplate s)) s') = example t"
proof -
  define row :: "DataPoint \<Rightarrow> string" where "row = (\<lambda>p. DataPoint.name p @ '','' @ number_to_string (value p))"
  have text_eq: "map_option blob (downloadTemplate s) =
             Some (''name,value'' @ newline # join [newline] (map row (example t)))"
    using assms(1) by (simp add: downloadTemplate_def row_def Let_def)
  have hdr: "newline \<notin> set ''name,value''" by (simp add: newline_def)
  have rows: "concat (map (\<lambda>l. csv_row l []) (map row ps)) = ps" if "list_all round_trips ps" for ps
    using that by (induction ps) (simp_all add: row_def csv_row_of_point)
  have nl: "\<forall>l \<in> set (map row (example t)). newline \<notin> set l"
  proof
    fix l
    assume "l \<in> set (map row (example t))"
    then obtain p where p: "p \<in> set (example t)" "l = row p" by auto
    from assms(2) p(1) have "round_trips p" by (simp add: list_all_iff)
    then have "newline \<notin> set (DataPoint.name p)" by (simp add: round_trips_def)
    then show "newline \<notin> set l"
      using number_to_string_no_newline [of "value p"] newline_not_comma
      by (simp add: p(2) row_def)
  qed
  have sp: "split_on newline (''name,value'' @ newline # rest) =
            ''name,value'' # split_on newline rest" for rest
    using hdr by (rule split_on_append)
  have lines: "csv_loop (split_on newline (''name,value'' @ newline # join [newline] (map row (example t)))) 1 [] =
               example t"
  proof (cases "example t = []")
    case True
    show ?thesis
      unfolding sp
      by (simp add: True csv_loop_rows csv_row_def trim_def trimStart_def trimEnd_def)
  next
    case False
    then have "map row (example t) \<noteq> []" by simp
    then have "split_on newline (join [newline] (map row (example t))) = map row (example t)"
      using nl by (rule split_on_join)
    then show ?thesis
      unfolding sp using rows [OF assms(2)] by (simp add: csv_loop_rows)
  qed
  show ?thesis
    unfolding text_eq using lines by (simp add: handleFileUpload_def reader_onload_def)
qed

lemma templates_round_trip: "list_all (\<lambda>t. list_all round_trips (example t)) templates"
  by (simp add: templates_def round_trips_def newline_def isNaN_def number_eval
      number_to_string_def positive_to_string_def shortest_digits_def digit_candidates_def
      nearer_def decimal_exponent_def decimal_digits.simps digit_char_def replicate_numeral
      floor_rat_numeral ceiling_rat_numeral)

end
